theory Spec2Isabelle
  imports Main
begin

section \<open>Data model\<close>

text \<open>
  The helpers of package \<^verbatim>\<open>opentracing_helpers\<close> are straight-line Go functions over the
  tracing API and the standard HTTP types. Go's \<^verbatim>\<open>error\<close> values are strings here, and the
  nil error is \<open>None\<close>. An \<^verbatim>\<open>http.Header\<close> is a Go map, that is a reference: the request
  holds the address of its header map, and the map itself lives in the world, so that a write
  through one copy of a request is seen through every other copy. A request whose header
  map is nil is outside this model: every request carries an allocated map, as the HTTP
  server and \<^verbatim>\<open>http.NewRequest\<close> make them.
\<close>

type_synonym error = string

type_synonym header = "string \<rightharpoonup> string list"

type_synonym header_ref = nat

type_synonym span_ref = nat

datatype format = Binary | TextMap | HTTPHeaders

datatype 'c StartSpanOption = ChildOf 'c | FollowsFrom 'c

text \<open>The values the lifecycle hooks of \<^verbatim>\<open>net/http/httptrace\<close> receive.\<close>

datatype GotConnInfo = GotConnInfo (Reused: bool) (WasIdle: bool) (IdleTime: nat)

datatype DNSStartInfo = DNSStartInfo (Host: string)

datatype DNSDoneInfo = DNSDoneInfo (Addrs: "string list") (DNSErr: "error option") (Coalesced: bool)

datatype WroteRequestInfo = WroteRequestInfo (WriteErr: "error option")

datatype object =
    ObjGotConnInfo GotConnInfo
  | ObjDNSStartInfo DNSStartInfo
  | ObjDNSDoneInfo DNSDoneInfo
  | ObjWroteRequestInfo WroteRequestInfo
  | ObjString string

text \<open>A log field, as the constructors of package \<^verbatim>\<open>opentracing-go/log\<close> build them.\<close>

datatype log_field =
    LogString string string
  | LogObject string object
  | LogError "error option"

text \<open>
  Modelled from the spec: the tracing API (package \<^verbatim>\<open>opentracing-go\<close>) is a dependency and
  not part of the repository's sources. A span is the spec's "tracing handle with a name, tags and log entries",
  with the references it was started with, its own SpanContext, and the number of times
  \<^verbatim>\<open>Finish\<close> was called on it. A Go \<^verbatim>\<open>Span\<close> value is the address of such a record.
\<close>

record 'c span =
  operation_name :: string
  references :: "'c StartSpanOption list"
  span_context :: 'c
  log_records :: "log_field list list"
  finish_calls :: nat

text \<open>
  What differs from one tracer implementation to the next is a parameter: how a
  SpanContext is read from and written to a carrier (each call returns Go's pair of a
  value and an error), and which SpanContext a new span gets.
\<close>

record 'c tracer =
  Extract :: "format \<Rightarrow> header \<Rightarrow> 'c option \<times> error option"
  Inject :: "'c \<Rightarrow> format \<Rightarrow> header \<Rightarrow> header \<times> error option"
  NewSpanContext :: "span_ref \<Rightarrow> string \<Rightarrow> 'c StartSpanOption list \<Rightarrow> 'c"

record 'c world =
  next_span :: span_ref
  spans :: "span_ref \<Rightarrow> 'c span"
  headers :: "header_ref \<Rightarrow> header"

text \<open>
  The hooks of \<^verbatim>\<open>httptrace.ClientTrace\<close>; a nil hook is \<open>None\<close>. A hook is a closure that
  acts on the world.
\<close>

record 'c ClientTrace =
  GetConn :: "(string \<Rightarrow> 'c world \<Rightarrow> 'c world) option"
  GotConn :: "(GotConnInfo \<Rightarrow> 'c world \<Rightarrow> 'c world) option"
  PutIdleConn :: "(error option \<Rightarrow> 'c world \<Rightarrow> 'c world) option"
  GotFirstResponseByte :: "('c world \<Rightarrow> 'c world) option"
  Got100Continue :: "('c world \<Rightarrow> 'c world) option"
  DNSStart :: "(DNSStartInfo \<Rightarrow> 'c world \<Rightarrow> 'c world) option"
  DNSDone :: "(DNSDoneInfo \<Rightarrow> 'c world \<Rightarrow> 'c world) option"
  ConnectStart :: "(string \<Rightarrow> string \<Rightarrow> 'c world \<Rightarrow> 'c world) option"
  ConnectDone :: "(string \<Rightarrow> string \<Rightarrow> error option \<Rightarrow> 'c world \<Rightarrow> 'c world) option"
  WroteHeaders :: "('c world \<Rightarrow> 'c world) option"
  Wait100Continue :: "('c world \<Rightarrow> 'c world) option"
  WroteRequest :: "(WroteRequestInfo \<Rightarrow> 'c world \<Rightarrow> 'c world) option"

text \<open>
  A \<^verbatim>\<open>context.Context\<close>, reduced to the two values these helpers store in it: the active
  span and the client trace.
\<close>

record 'c go_context =
  active_span :: "span_ref option"
  client_trace :: "'c ClientTrace option"

record 'c request =
  Method :: string
  URL :: string
  Header :: header_ref
  Context :: "'c go_context"

text \<open>
  A handler either returns or panics; Go handlers have no error result. The response
  writer is passed through untouched, so its type is left open.
\<close>

datatype outcome = Returned | Panicked string

type_synonym ('c, 'rw) Handler = "'rw \<Rightarrow> 'c request \<Rightarrow> 'c world \<Rightarrow> outcome \<times> 'c world"

section \<open>The tracing and HTTP API the helpers call\<close>

text \<open>
  Modelled from the spec: \<^verbatim>\<open>StartSpan\<close>, \<^verbatim>\<open>Finish\<close>, \<^verbatim>\<open>LogFields\<close> and the context
  functions belong to the tracing API and the standard library, not to the repository.
  Starting a
  span creates it with the given name and references; finishing counts one more
  \<^verbatim>\<open>Finish\<close> call; \<^verbatim>\<open>LogFields\<close> appends one log entry.
\<close>

definition StartSpan ::
  "'c tracer \<Rightarrow> string \<Rightarrow> 'c StartSpanOption list \<Rightarrow> 'c world \<Rightarrow> span_ref \<times> 'c world" where
  "StartSpan tr operationName opts w =
     (let sp = next_span w in
      (sp, w\<lparr>next_span := Suc sp,
             spans := (spans w)(sp :=
               \<lparr>operation_name = operationName, references = opts,
                span_context = NewSpanContext tr sp operationName opts,
                log_records = [], finish_calls = 0\<rparr>)\<rparr>))"

definition Finish :: "span_ref \<Rightarrow> 'c world \<Rightarrow> 'c world" where
  "Finish sp w =
     w\<lparr>spans := (spans w)(sp := (spans w sp)\<lparr>finish_calls := Suc (finish_calls (spans w sp))\<rparr>)\<rparr>"

definition LogFields :: "span_ref \<Rightarrow> log_field list \<Rightarrow> 'c world \<Rightarrow> 'c world" where
  "LogFields sp flds w =
     w\<lparr>spans := (spans w)(sp := (spans w sp)\<lparr>log_records := log_records (spans w sp) @ [flds]\<rparr>)\<rparr>"

definition SpanContextOf :: "span_ref \<Rightarrow> 'c world \<Rightarrow> 'c" where
  "SpanContextOf sp w = span_context (spans w sp)"

definition ContextWithSpan :: "'c go_context \<Rightarrow> span_ref \<Rightarrow> 'c go_context" where
  "ContextWithSpan ctx sp = ctx\<lparr>active_span := Some sp\<rparr>"

definition SpanFromContext :: "'c go_context \<Rightarrow> span_ref option" where
  "SpanFromContext ctx = active_span ctx"

definition WithContext :: "'c request \<Rightarrow> 'c go_context \<Rightarrow> 'c request" where
  "WithContext r ctx = r\<lparr>Context := ctx\<rparr>"

definition HTTPHeadersCarrier :: "header_ref \<Rightarrow> header_ref" where
  "HTTPHeadersCarrier h = h"

text \<open>The tracer reads the carrier's map from the world, and writes it back in place.\<close>

definition ExtractFrom ::
  "'c tracer \<Rightarrow> format \<Rightarrow> header_ref \<Rightarrow> 'c world \<Rightarrow> 'c option \<times> error option" where
  "ExtractFrom tr fmt carrier w = Extract tr fmt (headers w carrier)"

definition InjectInto ::
  "'c tracer \<Rightarrow> 'c \<Rightarrow> format \<Rightarrow> header_ref \<Rightarrow> 'c world \<Rightarrow> error option \<times> 'c world" where
  "InjectInto tr sc fmt carrier w =
     (case Inject tr sc fmt (headers w carrier) of
        (h', err) \<Rightarrow> (err, w\<lparr>headers := (headers w)(carrier := h')\<rparr>))"

definition ServeHTTP :: "('c, 'rw) Handler \<Rightarrow> 'rw \<Rightarrow> 'c request \<Rightarrow> 'c world \<Rightarrow> outcome \<times> 'c world" where
  "ServeHTTP handler rw r w = handler rw r w"

text \<open>
  Go's \<^verbatim>\<open>defer\<close>: the deferred call runs when the rest of the function body ends, whether
  it returns or panics, and a panic goes on to the caller afterwards.
\<close>

definition go_defer :: "('w \<Rightarrow> 'w) \<Rightarrow> ('w \<Rightarrow> outcome \<times> 'w) \<Rightarrow> 'w \<Rightarrow> outcome \<times> 'w" where
  "go_defer deferred body w = (case body w of (out, w') \<Rightarrow> (out, deferred w'))"

section \<open>TraceHandler\<close>

text \<open>
  \<^verbatim>\<open>TraceHandler\<close> of \<^verbatim>\<open>opentracing_helpers.go\<close> (and of the second version of it, which
  has the same body): the span is named by the pattern.
\<close>

definition TraceHandler ::
  "'c tracer \<Rightarrow> string \<Rightarrow> ('c, 'rw) Handler \<Rightarrow> string \<times> ('c, 'rw) Handler" where
  "TraceHandler GlobalTracer pattern handler =
     (pattern, \<lambda>rw r w.
        let carrier = HTTPHeadersCarrier (Header r);
            (parentSpanContext, _) = ExtractFrom GlobalTracer HTTPHeaders carrier w;
            (span, w1) =
              (case parentSpanContext of
                 None \<Rightarrow> StartSpan GlobalTracer pattern [] w
               | Some psc \<Rightarrow> StartSpan GlobalTracer pattern [ChildOf psc] w)
        in go_defer (Finish span)
             (\<lambda>w2. let r' = WithContext r (ContextWithSpan (Context r) span)
                   in ServeHTTP handler rw r' w2)
             w1)"

text \<open>
  \<^verbatim>\<open>TraceHandler\<close> of the version of the file that also holds \<^verbatim>\<open>TraceRequest\<close>:
  the span is named by the request method, a space, and the pattern.
\<close>

definition TraceHandler_method ::
  "'c tracer \<Rightarrow> string \<Rightarrow> ('c, 'rw) Handler \<Rightarrow> string \<times> ('c, 'rw) Handler" where
  "TraceHandler_method GlobalTracer pattern handler =
     (pattern, \<lambda>rw r w.
        let carrier = HTTPHeadersCarrier (Header r);
            tracer = GlobalTracer;
            (parentSpanContext, _) = ExtractFrom tracer HTTPHeaders carrier w;
            spanName = Method r @ '' '' @ pattern;
            (span, w1) =
              (case parentSpanContext of
                 None \<Rightarrow> StartSpan GlobalTracer spanName [] w
               | Some psc \<Rightarrow> StartSpan GlobalTracer spanName [ChildOf psc] w)
        in go_defer (Finish span)
             (\<lambda>w2. let r' = WithContext r (ContextWithSpan (Context r) span)
                   in ServeHTTP handler rw r' w2)
             w1)"

section \<open>TraceRequest\<close>

text \<open>
  Modelled from the spec: \<^verbatim>\<open>StartSpanFromContext\<close> is a function of the tracing API, not of
  the repository. It starts "a new span (child of any span found in the given context)" and returns
  it with a context that holds it.
\<close>

definition StartSpanFromContext ::
  "'c tracer \<Rightarrow> 'c go_context \<Rightarrow> string \<Rightarrow> 'c world \<Rightarrow> (span_ref \<times> 'c go_context) \<times> 'c world" where
  "StartSpanFromContext tr ctx operationName w =
     (let opts = (case SpanFromContext ctx of
                    None \<Rightarrow> []
                  | Some parentSpan \<Rightarrow> [ChildOf (SpanContextOf parentSpan w)]);
          (span, w') = StartSpan tr operationName opts w
      in ((span, ContextWithSpan ctx span), w'))"

text \<open>
  Modelled from the spec: \<^verbatim>\<open>httptrace.WithClientTrace\<close> is the standard library's. It
  attaches the hooks to the context; where the context already holds a hook for the same
  event, the new hook runs first and the older one after it.
\<close>

definition compose0 ::
  "('w \<Rightarrow> 'w) option \<Rightarrow> ('w \<Rightarrow> 'w) option \<Rightarrow> ('w \<Rightarrow> 'w) option" where
  "compose0 new old =
     (case new of None \<Rightarrow> old
      | Some f \<Rightarrow> (case old of None \<Rightarrow> Some f | Some g \<Rightarrow> Some (\<lambda>w. g (f w))))"

definition compose1 ::
  "('a \<Rightarrow> 'w \<Rightarrow> 'w) option \<Rightarrow> ('a \<Rightarrow> 'w \<Rightarrow> 'w) option \<Rightarrow> ('a \<Rightarrow> 'w \<Rightarrow> 'w) option" where
  "compose1 new old =
     (case new of None \<Rightarrow> old
      | Some f \<Rightarrow> (case old of None \<Rightarrow> Some f | Some g \<Rightarrow> Some (\<lambda>a w. g a (f a w))))"

definition compose2 ::
  "('a \<Rightarrow> 'b \<Rightarrow> 'w \<Rightarrow> 'w) option \<Rightarrow> ('a \<Rightarrow> 'b \<Rightarrow> 'w \<Rightarrow> 'w) option
     \<Rightarrow> ('a \<Rightarrow> 'b \<Rightarrow> 'w \<Rightarrow> 'w) option" where
  "compose2 new old =
     (case new of None \<Rightarrow> old
      | Some f \<Rightarrow> (case old of None \<Rightarrow> Some f | Some g \<Rightarrow> Some (\<lambda>a b w. g a b (f a b w))))"

definition compose3 ::
  "('a \<Rightarrow> 'b \<Rightarrow> 'd \<Rightarrow> 'w \<Rightarrow> 'w) option \<Rightarrow> ('a \<Rightarrow> 'b \<Rightarrow> 'd \<Rightarrow> 'w \<Rightarrow> 'w) option
     \<Rightarrow> ('a \<Rightarrow> 'b \<Rightarrow> 'd \<Rightarrow> 'w \<Rightarrow> 'w) option" where
  "compose3 new old =
     (case new of None \<Rightarrow> old
      | Some f \<Rightarrow> (case old of None \<Rightarrow> Some f | Some g \<Rightarrow> Some (\<lambda>a b d w. g a b d (f a b d w))))"

definition compose :: "'c ClientTrace \<Rightarrow> 'c ClientTrace \<Rightarrow> 'c ClientTrace" where
  "compose t old =
     \<lparr>GetConn = compose1 (GetConn t) (GetConn old),
      GotConn = compose1 (GotConn t) (GotConn old),
      PutIdleConn = compose1 (PutIdleConn t) (PutIdleConn old),
      GotFirstResponseByte = compose0 (GotFirstResponseByte t) (GotFirstResponseByte old),
      Got100Continue = compose0 (Got100Continue t) (Got100Continue old),
      DNSStart = compose1 (DNSStart t) (DNSStart old),
      DNSDone = compose1 (DNSDone t) (DNSDone old),
      ConnectStart = compose2 (ConnectStart t) (ConnectStart old),
      ConnectDone = compose3 (ConnectDone t) (ConnectDone old),
      WroteHeaders = compose0 (WroteHeaders t) (WroteHeaders old),
      Wait100Continue = compose0 (Wait100Continue t) (Wait100Continue old),
      WroteRequest = compose1 (WroteRequest t) (WroteRequest old)\<rparr>"

definition WithClientTrace :: "'c go_context \<Rightarrow> 'c ClientTrace \<Rightarrow> 'c go_context" where
  "WithClientTrace ctx t =
     ctx\<lparr>client_trace :=
           Some (case client_trace ctx of None \<Rightarrow> t | Some old \<Rightarrow> compose t old)\<rparr>"

text \<open>
  The value of the local \<^verbatim>\<open>trace\<close> of \<^verbatim>\<open>TraceRequest\<close>: seven hooks, each a closure over
  the new span that makes one \<^verbatim>\<open>LogFields\<close> call; the other hooks of the struct stay nil.
\<close>

definition TraceRequest_trace :: "span_ref \<Rightarrow> 'c ClientTrace" where
  "TraceRequest_trace span =
     \<lparr>GetConn = Some (\<lambda>hostPort.
        LogFields span
          [LogString ''event'' ''Get Connection '',
           LogString ''host:port'' hostPort]),
      GotConn = Some (\<lambda>connInfo.
        LogFields span
          [LogString ''event'' ''Got Connection'',
           LogObject ''connection info'' (ObjGotConnInfo connInfo)]),
      PutIdleConn = None,
      GotFirstResponseByte = Some
        (LogFields span [LogString ''event'' ''Got First Response Byte'']),
      Got100Continue = None,
      DNSStart = Some (\<lambda>dnsInfo.
        LogFields span
          [LogString ''event'' ''DNS Start'',
           LogObject ''dns start info'' (ObjDNSStartInfo dnsInfo)]),
      DNSDone = Some (\<lambda>dnsInfo.
        LogFields span
          [LogString ''event'' ''DNS Done'',
           LogObject ''dns done info'' (ObjDNSDoneInfo dnsInfo)]),
      ConnectStart = None,
      ConnectDone = Some (\<lambda>network addr err.
        LogFields span
          [LogString ''event'' ''Connect Done'',
           LogObject ''network'' (ObjString network),
           LogString ''address'' addr,
           LogError err]),
      WroteHeaders = None,
      Wait100Continue = None,
      WroteRequest = Some (\<lambda>info.
        LogFields span
          [LogString ''event'' ''Wrote Request'',
           LogObject ''wrote request info'' (ObjWroteRequestInfo info)])\<rparr>"

text \<open>
  \<^verbatim>\<open>TraceRequest\<close>. The request is passed by value, but its header
  map is shared with the caller's request and with the request returned. The context
  returned by \<^verbatim>\<open>StartSpanFromContext\<close> is assigned and not used again, and the error
  returned by \<^verbatim>\<open>Inject\<close> is not bound at all.
\<close>

definition TraceRequest ::
  "'c tracer \<Rightarrow> string \<Rightarrow> 'c go_context \<Rightarrow> 'c request \<Rightarrow> 'c world
     \<Rightarrow> ('c request \<times> span_ref) \<times> 'c world" where
  "TraceRequest GlobalTracer operationName ctx r w =
     (let ((span, ctx'), w1) = StartSpanFromContext GlobalTracer ctx operationName w;
          (_, w2) = InjectInto GlobalTracer (SpanContextOf span w1) HTTPHeaders
                      (HTTPHeadersCarrier (Header r)) w1;
          trace = TraceRequest_trace span
      in ((WithContext r (WithClientTrace (Context r) trace), span), w2))"

section \<open>Lifecycle events of an outbound request\<close>

text \<open>
  Modelled from the spec: the HTTP transport is the standard library's. When an event of
  the request's lifecycle fires, the transport calls the hook of that event if the client
  trace has one, and does nothing otherwise.
\<close>

datatype trace_event =
    EvGetConn string
  | EvGotConn GotConnInfo
  | EvPutIdleConn "error option"
  | EvGotFirstResponseByte
  | EvGot100Continue
  | EvDNSStart DNSStartInfo
  | EvDNSDone DNSDoneInfo
  | EvConnectStart string string
  | EvConnectDone string string "error option"
  | EvWroteHeaders
  | EvWait100Continue
  | EvWroteRequest WroteRequestInfo

fun fire :: "'c ClientTrace \<Rightarrow> trace_event \<Rightarrow> 'c world \<Rightarrow> 'c world" where
  "fire t (EvGetConn hostPort) w = (case GetConn t of None \<Rightarrow> w | Some f \<Rightarrow> f hostPort w)"
| "fire t (EvGotConn info) w = (case GotConn t of None \<Rightarrow> w | Some f \<Rightarrow> f info w)"
| "fire t (EvPutIdleConn err) w = (case PutIdleConn t of None \<Rightarrow> w | Some f \<Rightarrow> f err w)"
| "fire t EvGotFirstResponseByte w = (case GotFirstResponseByte t of None \<Rightarrow> w | Some f \<Rightarrow> f w)"
| "fire t EvGot100Continue w = (case Got100Continue t of None \<Rightarrow> w | Some f \<Rightarrow> f w)"
| "fire t (EvDNSStart info) w = (case DNSStart t of None \<Rightarrow> w | Some f \<Rightarrow> f info w)"
| "fire t (EvDNSDone info) w = (case DNSDone t of None \<Rightarrow> w | Some f \<Rightarrow> f info w)"
| "fire t (EvConnectStart network addr) w =
     (case ConnectStart t of None \<Rightarrow> w | Some f \<Rightarrow> f network addr w)"
| "fire t (EvConnectDone network addr err) w =
     (case ConnectDone t of None \<Rightarrow> w | Some f \<Rightarrow> f network addr err w)"
| "fire t EvWroteHeaders w = (case WroteHeaders t of None \<Rightarrow> w | Some f \<Rightarrow> f w)"
| "fire t EvWait100Continue w = (case Wait100Continue t of None \<Rightarrow> w | Some f \<Rightarrow> f w)"
| "fire t (EvWroteRequest info) w = (case WroteRequest t of None \<Rightarrow> w | Some f \<Rightarrow> f info w)"

text \<open>The events of one round trip, in the order they fire.\<close>

fun fire_all :: "'c ClientTrace \<Rightarrow> trace_event list \<Rightarrow> 'c world \<Rightarrow> 'c world" where
  "fire_all t [] w = w"
| "fire_all t (ev # evs) w = fire_all t evs (fire t ev w)"

section \<open>What the wrapped handler is called with\<close>

text \<open>
  The references \<^verbatim>\<open>TraceHandler\<close> starts its span with, the world in which the wrapped
  handler starts to run, and the request it is given. The handle of the span is the next
  free one of the world the request arrived in.
\<close>

definition parent_options :: "'c tracer \<Rightarrow> 'c request \<Rightarrow> 'c world \<Rightarrow> 'c StartSpanOption list" where
  "parent_options tr r w =
     (case fst (ExtractFrom tr HTTPHeaders (HTTPHeadersCarrier (Header r)) w) of
        None \<Rightarrow> []
      | Some psc \<Rightarrow> [ChildOf psc])"

definition handler_world :: "'c tracer \<Rightarrow> string \<Rightarrow> 'c request \<Rightarrow> 'c world \<Rightarrow> 'c world" where
  "handler_world tr spanName r w = snd (StartSpan tr spanName (parent_options tr r w) w)"

definition handler_request :: "'c request \<Rightarrow> 'c world \<Rightarrow> 'c request" where
  "handler_request r w = WithContext r (ContextWithSpan (Context r) (next_span w))"

section \<open>Concrete tracers, worlds and handlers\<close>

text \<open>
  A tracer that carries a SpanContext (a string) in the header \<^verbatim>\<open>Trace-Id\<close>, and a tracer
  that records nothing, as the API's default tracer does when none is registered: its
  \<^verbatim>\<open>Inject\<close> writes nothing and reports no error, its \<^verbatim>\<open>Extract\<close> finds nothing.
\<close>

definition text_tracer :: "string tracer" where
  "text_tracer =
     \<lparr>Extract = (\<lambda>fmt h.
        case fmt of
          HTTPHeaders \<Rightarrow>
            (case h ''Trace-Id'' of
               Some (v # vs) \<Rightarrow> (Some v, None)
             | _ \<Rightarrow> (None, Some ''SpanContext not found''))
        | _ \<Rightarrow> (None, Some ''unsupported format'')),
      Inject = (\<lambda>sc fmt h.
        case fmt of
          HTTPHeaders \<Rightarrow> (h(''Trace-Id'' \<mapsto> [sc]), None)
        | _ \<Rightarrow> (h, Some ''unsupported format'')),
      NewSpanContext = (\<lambda>sp operationName opts.
        case opts of
          ChildOf parent # rest \<Rightarrow> parent @ ''/'' @ operationName
        | _ \<Rightarrow> operationName)\<rparr>"

definition noop_tracer :: "string tracer" where
  "noop_tracer =
     \<lparr>Extract = (\<lambda>fmt h. (None, Some ''SpanContext not found'')),
      Inject = (\<lambda>sc fmt h. (h, None)),
      NewSpanContext = (\<lambda>sp operationName opts. ''noop'')\<rparr>"

definition no_span :: "string span" where
  "no_span = \<lparr>operation_name = [], references = [], span_context = [],
              log_records = [], finish_calls = 0\<rparr>"

definition world0 :: "string world" where
  "world0 = \<lparr>next_span = 0, spans = (\<lambda>sp. no_span), headers = (\<lambda>h. Map.empty)\<rparr>"

definition world1 :: "string world" where
  "world1 = \<lparr>next_span = 0, spans = (\<lambda>sp. no_span),
             headers = (\<lambda>h. [''Trace-Id'' \<mapsto> [''abc'']])\<rparr>"

definition background :: "string go_context" where
  "background = \<lparr>active_span = None, client_trace = None\<rparr>"

definition request0 :: "string request" where
  "request0 = \<lparr>Method = ''GET'', URL = ''/foo'', Header = 0, Context = background\<rparr>"

definition ok_handler :: "(string, unit) Handler" where
  "ok_handler rw r w = (Returned, w)"

definition panicking_handler :: "(string, unit) Handler" where
  "panicking_handler rw r w = (Panicked ''boom'', w)"

section \<open>What the hooks of TraceRequest log\<close>

text \<open>
  The log entries that one event adds through the hooks of \<^verbatim>\<open>TraceRequest\<close>, the events
  that have a hook there, and a run of \<^verbatim>\<open>LogFields\<close> calls.
\<close>

fun logged :: "trace_event \<Rightarrow> log_field list list" where
  "logged (EvGetConn hostPort) =
     [[LogString ''event'' ''Get Connection '', LogString ''host:port'' hostPort]]"
| "logged (EvGotConn connInfo) =
     [[LogString ''event'' ''Got Connection'',
       LogObject ''connection info'' (ObjGotConnInfo connInfo)]]"
| "logged (EvPutIdleConn err) = []"
| "logged EvGotFirstResponseByte = [[LogString ''event'' ''Got First Response Byte'']]"
| "logged EvGot100Continue = []"
| "logged (EvDNSStart dnsInfo) =
     [[LogString ''event'' ''DNS Start'', LogObject ''dns start info'' (ObjDNSStartInfo dnsInfo)]]"
| "logged (EvDNSDone dnsInfo) =
     [[LogString ''event'' ''DNS Done'', LogObject ''dns done info'' (ObjDNSDoneInfo dnsInfo)]]"
| "logged (EvConnectStart network addr) = []"
| "logged (EvConnectDone network addr err) =
     [[LogString ''event'' ''Connect Done'', LogObject ''network'' (ObjString network),
       LogString ''address'' addr, LogError err]]"
| "logged EvWroteHeaders = []"
| "logged EvWait100Continue = []"
| "logged (EvWroteRequest info) =
     [[LogString ''event'' ''Wrote Request'',
       LogObject ''wrote request info'' (ObjWroteRequestInfo info)]]"

fun hooked :: "trace_event \<Rightarrow> bool" where
  "hooked (EvGetConn hostPort) = True"
| "hooked (EvGotConn connInfo) = True"
| "hooked (EvPutIdleConn err) = False"
| "hooked EvGotFirstResponseByte = True"
| "hooked EvGot100Continue = False"
| "hooked (EvDNSStart dnsInfo) = True"
| "hooked (EvDNSDone dnsInfo) = True"
| "hooked (EvConnectStart network addr) = False"
| "hooked (EvConnectDone network addr err) = True"
| "hooked EvWroteHeaders = False"
| "hooked EvWait100Continue = False"
| "hooked (EvWroteRequest info) = True"

definition log_entries :: "span_ref \<Rightarrow> log_field list list \<Rightarrow> 'c world \<Rightarrow> 'c world" where
  "log_entries sp es w = fold (LogFields sp) es w"

text \<open>
  A tracer whose \<^verbatim>\<open>Inject\<close> fails and leaves the carrier as it was, the events of a round
  trip to an IP-literal host (no DNS lookup), and a world and a context with a span in
  them.
\<close>

definition rejecting_tracer :: "string tracer" where
  "rejecting_tracer =
     \<lparr>Extract = Extract text_tracer,
      Inject = (\<lambda>sc fmt h. (h, Some ''invalid carrier'')),
      NewSpanContext = NewSpanContext text_tracer\<rparr>"

definition ip_literal_round_trip :: "trace_event list" where
  "ip_literal_round_trip =
     [EvGetConn ''10.0.0.1:80'',
      EvConnectStart ''tcp'' ''10.0.0.1:80'',
      EvConnectDone ''tcp'' ''10.0.0.1:80'' None,
      EvGotConn (GotConnInfo False False 0),
      EvWroteHeaders,
      EvWroteRequest (WroteRequestInfo None),
      EvGotFirstResponseByte]"

definition child_context :: "string go_context" where
  "child_context = \<lparr>active_span = Some 0, client_trace = None\<rparr>"

definition world2 :: "string world" where
  "world2 = snd (StartSpan text_tracer ''GET /foo'' [] world0)"

section \<open>Properties of TraceHandler\<close>

lemma StartSpan_ref: "StartSpan tr n opts w = (sp, w') \<Longrightarrow> sp = next_span w"
  by (simp add: StartSpan_def Let_def)

text \<open>
  Both versions of the handler are the same three steps: start the span, run the wrapped
  handler on the request that carries the span, and finish the span by a deferred call.
\<close>

lemma TraceHandler_serve:
  "snd (TraceHandler tr pattern handler) rw r w =
     go_defer (Finish (next_span w)) (handler rw (handler_request r w))
       (handler_world tr pattern r w)"
  by (auto simp add: TraceHandler_def handler_world_def handler_request_def parent_options_def
      ServeHTTP_def Let_def split: prod.splits option.splits dest: StartSpan_ref)

lemma TraceHandler_method_serve:
  "snd (TraceHandler_method tr pattern handler) rw r w =
     go_defer (Finish (next_span w)) (handler rw (handler_request r w))
       (handler_world tr (Method r @ '' '' @ pattern) r w)"
  by (auto simp add: TraceHandler_method_def handler_world_def handler_request_def
      parent_options_def ServeHTTP_def Let_def split: prod.splits option.splits
      dest: StartSpan_ref)

lemma handler_world_span:
  "spans (handler_world tr spanName r w) (next_span w) =
     \<lparr>operation_name = spanName, references = parent_options tr r w,
      span_context = NewSpanContext tr (next_span w) spanName (parent_options tr r w),
      log_records = [], finish_calls = 0\<rparr>"
  by (simp add: handler_world_def StartSpan_def Let_def)

lemma Finish_count:
  "finish_calls (spans (Finish sp w) sp) = Suc (finish_calls (spans w sp))"
  by (simp add: Finish_def)

lemma go_defer_eq: "body w = (out, w') \<Longrightarrow> go_defer d body w = (out, d w')"
  by (simp add: go_defer_def)



lemma parent_options_Some:
  "Extract tr HTTPHeaders (headers w (Header r)) = (Some psc, err) \<Longrightarrow>
     parent_options tr r w = [ChildOf psc]"
  by (simp add: parent_options_def ExtractFrom_def HTTPHeadersCarrier_def)



text \<open>
  Claim C1. Whichever way the wrapped handler ends, by returning or by panicking
  (\<open>out\<close> is any outcome), the handler returned by \<^verbatim>\<open>TraceHandler\<close> ends the same way, in
  the world the wrapped handler left with one \<^verbatim>\<open>Finish\<close> call made on the span started
  for the request. The span has no \<^verbatim>\<open>Finish\<close> call when the wrapped handler starts, and
  the deferred call adds exactly one. This holds for both versions of \<^verbatim>\<open>TraceHandler\<close>.
\<close>

theorem TraceHandler_finishes_span_exactly_once:
  assumes "handler rw (handler_request r w) (handler_world tr pattern r w) = (out, w')"
    and "handler rw (handler_request r w)
           (handler_world tr (Method r @ '' '' @ pattern) r w) = (out_m, w_m)"
  shows "snd (TraceHandler tr pattern handler) rw r w = (out, Finish (next_span w) w')
       \<and> snd (TraceHandler_method tr pattern handler) rw r w = (out_m, Finish (next_span w) w_m)
       \<and> finish_calls (spans (handler_world tr pattern r w) (next_span w)) = 0
       \<and> finish_calls (spans (handler_world tr (Method r @ '' '' @ pattern) r w) (next_span w)) = 0
       \<and> finish_calls (spans (Finish (next_span w) w') (next_span w))
           = Suc (finish_calls (spans w' (next_span w)))
       \<and> finish_calls (spans (Finish (next_span w) w_m) (next_span w))
           = Suc (finish_calls (spans w_m (next_span w)))"
  using assms
  by (simp add: TraceHandler_serve TraceHandler_method_serve go_defer_eq handler_world_span
      Finish_count)

theorem TraceHandler_finishes_span_exactly_once_witness:
  "snd (TraceHandler text_tracer ''/foo'' panicking_handler) () request0 world0
     = (Panicked ''boom'', Finish 0 (handler_world text_tracer ''/foo'' request0 world0))
   \<and> snd (TraceHandler_method text_tracer ''/foo'' panicking_handler) () request0 world0
     = (Panicked ''boom'', Finish 0 (handler_world text_tracer ''GET /foo'' request0 world0))
   \<and> finish_calls (spans (Finish 0 (handler_world text_tracer ''/foo'' request0 world0)) 0) = 1
   \<and> finish_calls (spans (Finish 0 (handler_world text_tracer ''GET /foo'' request0 world0)) 0) = 1"
  using TraceHandler_finishes_span_exactly_once
    [of panicking_handler "()" request0 world0 text_tracer "''/foo''" "Panicked ''boom''"
        "handler_world text_tracer ''/foo'' request0 world0" "Panicked ''boom''"
        "handler_world text_tracer ''GET /foo'' request0 world0"]
  by (simp add: panicking_handler_def request0_def world0_def)



text \<open>
  Claim C3. When \<^verbatim>\<open>Extract\<close> yields a SpanContext from the request's headers, the span is
  started with one reference, \<^verbatim>\<open>ChildOf\<close> that context, in both versions.
\<close>

theorem TraceHandler_child_of_extracted_context:
  assumes "Extract tr HTTPHeaders (headers w (Header r)) = (Some psc, err)"
  shows "snd (TraceHandler tr pattern handler) rw r w
           = go_defer (Finish (next_span w)) (handler rw (handler_request r w))
               (snd (StartSpan tr pattern [ChildOf psc] w))
       \<and> snd (TraceHandler_method tr pattern handler) rw r w
           = go_defer (Finish (next_span w)) (handler rw (handler_request r w))
               (snd (StartSpan tr (Method r @ '' '' @ pattern) [ChildOf psc] w))
       \<and> references (spans (snd (StartSpan tr spanName [ChildOf psc] w)) (next_span w))
           = [ChildOf psc]"
proof -
  have opts: "parent_options tr r w = [ChildOf psc]"
    using assms by (rule parent_options_Some)
  have child: "references (spans (snd (StartSpan tr spanName [ChildOf psc] w)) (next_span w))
                 = [ChildOf psc]"
    by (simp add: StartSpan_def Let_def)
  show ?thesis
    by (simp add: TraceHandler_serve TraceHandler_method_serve handler_world_def opts child)
qed

theorem TraceHandler_child_of_extracted_context_witness:
  "Extract text_tracer HTTPHeaders (headers world1 (Header request0)) = (Some ''abc'', None)
   \<and> references (spans (snd (snd (TraceHandler text_tracer ''/foo'' ok_handler) () request0 world1)) 0)
       = [ChildOf ''abc'']
   \<and> references
        (spans (snd (snd (TraceHandler_method text_tracer ''/foo'' ok_handler) () request0 world1)) 0)
       = [ChildOf ''abc'']"
proof -
  have h: "Extract text_tracer HTTPHeaders (headers world1 (Header request0)) = (Some ''abc'', None)"
    by (simp add: text_tracer_def world1_def)
  show ?thesis
    using h TraceHandler_child_of_extracted_context [OF h, of "''/foo''" ok_handler "()"]
    by (simp add: ok_handler_def go_defer_def Finish_def StartSpan_def Let_def world1_def)
qed





section \<open>Properties of TraceRequest\<close>

lemma fire_TraceRequest_trace:
  "fire (TraceRequest_trace sp) ev w = log_entries sp (logged ev) w"
  by (cases ev) (simp_all add: TraceRequest_trace_def log_entries_def)

lemma fire_all_TraceRequest_trace:
  "fire_all (TraceRequest_trace sp) evs w = log_entries sp (concat (map logged evs)) w"
  by (induction evs arbitrary: w) (simp_all add: fire_TraceRequest_trace log_entries_def)

lemma log_entries_records:
  "log_records (spans (log_entries sp es w) sp) = log_records (spans w sp) @ es"
  by (induction es arbitrary: w) (simp_all add: log_entries_def LogFields_def)

lemma logged_length: "length (logged ev) = (if hooked ev then 1 else 0)"
  by (cases ev) simp_all

lemma concat_logged_length: "length (concat (map logged evs)) = length (filter hooked evs)"
  by (induction evs) (simp_all add: logged_length)

lemma TraceRequest_result:
  "TraceRequest tr operationName ctx r w =
     ((WithContext r (WithClientTrace (Context r) (TraceRequest_trace (next_span w))),
       next_span w),
      snd (InjectInto tr
             (SpanContextOf (next_span w) (snd (StartSpanFromContext tr ctx operationName w)))
             HTTPHeaders (Header r) (snd (StartSpanFromContext tr ctx operationName w))))"
  by (auto simp add: TraceRequest_def StartSpanFromContext_def HTTPHeadersCarrier_def Let_def
      split: prod.splits dest: StartSpan_ref)


text \<open>An event fired on composed hooks runs the new hook, then the older one.\<close>

lemma fire_compose: "fire (compose t old) ev w = fire old ev (fire t ev w)"
  by (cases ev)
     (simp_all add: compose_def compose0_def compose1_def compose2_def compose3_def
        split: option.splits)

lemma StartSpanFromContext_world:
  "snd (StartSpanFromContext tr ctx operationName w) =
     snd (StartSpan tr operationName
            (case SpanFromContext ctx of
               None \<Rightarrow> []
             | Some parentSpan \<Rightarrow> [ChildOf (SpanContextOf parentSpan w)]) w)"
  by (simp add: StartSpanFromContext_def Let_def split: prod.splits)

lemma TraceRequest_span:
  assumes "TraceRequest tr operationName ctx r w = ((r', span), w')"
  shows "span = next_span w"
    and "r' = WithContext r (WithClientTrace (Context r) (TraceRequest_trace span))"
    and "spans w' span =
           \<lparr>operation_name = operationName,
            references = (case SpanFromContext ctx of
               None \<Rightarrow> []
             | Some parentSpan \<Rightarrow> [ChildOf (SpanContextOf parentSpan w)]),
            span_context = NewSpanContext tr (next_span w) operationName
              (case SpanFromContext ctx of
                 None \<Rightarrow> []
               | Some parentSpan \<Rightarrow> [ChildOf (SpanContextOf parentSpan w)]),
            log_records = [], finish_calls = 0\<rparr>"
    and "next_span w' = Suc (next_span w)"
    and "headers w' (Header r) =
           fst (Inject tr (SpanContextOf span w') HTTPHeaders (headers w (Header r)))"
    and "sp \<noteq> span \<Longrightarrow> spans w' sp = spans w sp"
    and "h \<noteq> Header r \<Longrightarrow> headers w' h = headers w h"
  using assms
  by (auto simp add: TraceRequest_result StartSpanFromContext_world StartSpan_def InjectInto_def
      SpanContextOf_def Let_def split: prod.splits)

lemma TraceRequest_collapse:
  "TraceRequest tr operationName ctx r w =
     ((fst (fst (TraceRequest tr operationName ctx r w)),
       snd (fst (TraceRequest tr operationName ctx r w))),
      snd (TraceRequest tr operationName ctx r w))"
  by simp

lemma text_tracer_simps:
  "NewSpanContext text_tracer sp n [] = n"
  "NewSpanContext text_tracer sp n [ChildOf parent] = parent @ ''/'' @ n"
  "Inject text_tracer sc HTTPHeaders h = (h(''Trace-Id'' \<mapsto> [sc]), None)"
  "Extract text_tracer HTTPHeaders (h(''Trace-Id'' \<mapsto> [sc])) = (Some sc, None)"
  by (simp_all add: text_tracer_def)

lemma world0_simps:
  "next_span world0 = 0"
  "headers world0 h = Map.empty"
  by (simp_all add: world0_def)

lemma world2_simps:
  "next_span world2 = 1"
  "span_context (spans world2 0) = ''GET /foo''"
  "headers world2 h = Map.empty"
  by (simp_all add: world2_def world0_def StartSpan_def Let_def text_tracer_simps)

text \<open>
  Claim C4. \<^verbatim>\<open>TraceRequest\<close> returns a new span, named by the operation name, whose
  references are \<^verbatim>\<open>ChildOf\<close> the context of the span found in the given context (none when
  there is no such span); the header map of the request holds what the tracer's
  \<^verbatim>\<open>Inject\<close> wrote for that span's context; the request returned is the request given with
  only its context replaced. On return the span has no \<^verbatim>\<open>Finish\<close> call and no log entry
  (no lifecycle event has fired: the round trip is left to the caller), and no other span
  and no other header map has changed.
\<close>

theorem TraceRequest_starts_span_and_injects:
  assumes "TraceRequest tr operationName ctx r w = ((r', span), w')"
  shows "span = next_span w
       \<and> next_span w' = Suc (next_span w)
       \<and> operation_name (spans w' span) = operationName
       \<and> references (spans w' span) =
           (case SpanFromContext ctx of
              None \<Rightarrow> []
            | Some parentSpan \<Rightarrow> [ChildOf (SpanContextOf parentSpan w)])
       \<and> headers w' (Header r') =
           fst (Inject tr (SpanContextOf span w') HTTPHeaders (headers w (Header r)))
       \<and> r' = WithContext r (WithClientTrace (Context r) (TraceRequest_trace span))
       \<and> Header r' = Header r \<and> Method r' = Method r \<and> URL r' = URL r
       \<and> finish_calls (spans w' span) = 0
       \<and> log_records (spans w' span) = []
       \<and> (\<forall>sp. sp \<noteq> span \<longrightarrow> spans w' sp = spans w sp)
       \<and> (\<forall>h. h \<noteq> Header r \<longrightarrow> headers w' h = headers w h)"
proof -
  note facts = TraceRequest_span [OF assms]
  have hdr: "Header r' = Header r \<and> Method r' = Method r \<and> URL r' = URL r"
    by (simp add: facts(2) WithContext_def)
  have rec: "operation_name (spans w' span) = operationName
             \<and> references (spans w' span) =
                 (case SpanFromContext ctx of
                    None \<Rightarrow> []
                  | Some parentSpan \<Rightarrow> [ChildOf (SpanContextOf parentSpan w)])
             \<and> finish_calls (spans w' span) = 0
             \<and> log_records (spans w' span) = []"
    by (simp add: facts(3))
  have frame: "(\<forall>sp. sp \<noteq> span \<longrightarrow> spans w' sp = spans w sp)
             \<and> (\<forall>h. h \<noteq> Header r \<longrightarrow> headers w' h = headers w h)"
    using facts(6,7) by blast
  have inj: "headers w' (Header r') =
               fst (Inject tr (SpanContextOf span w') HTTPHeaders (headers w (Header r)))"
    using facts(5) hdr by simp
  show ?thesis
    using facts(1) facts(2) facts(4) hdr rec frame inj
    by (elim conjE, intro conjI) assumption+
qed


theorem TraceRequest_starts_span_and_injects_witness:
  "snd (fst (TraceRequest text_tracer ''GET example.com'' child_context request0 world2)) = 1
   \<and> operation_name
        (spans (snd (TraceRequest text_tracer ''GET example.com'' child_context request0 world2)) 1)
       = ''GET example.com''
   \<and> references
        (spans (snd (TraceRequest text_tracer ''GET example.com'' child_context request0 world2)) 1)
       = [ChildOf ''GET /foo'']
   \<and> headers (snd (TraceRequest text_tracer ''GET example.com'' child_context request0 world2)) 0
        ''Trace-Id'' = Some [''GET /foo/GET example.com'']
   \<and> finish_calls
        (spans (snd (TraceRequest text_tracer ''GET example.com'' child_context request0 world2)) 1)
       = 0
   \<and> spans (snd (TraceRequest text_tracer ''GET example.com'' child_context request0 world2)) 0
       = spans world2 0"
proof -
  let ?res = "TraceRequest text_tracer ''GET example.com'' child_context request0 world2"
  have c: "SpanFromContext child_context = Some 0"
    by (simp add: child_context_def SpanFromContext_def)
  have hr: "Header request0 = 0"
    by (simp add: request0_def)
  have s: "snd (fst ?res) = 1"
    using TraceRequest_span(1) [OF TraceRequest_collapse, of text_tracer "''GET example.com''"
        child_context request0 world2]
    by (simp add: world2_simps)
  have col: "?res = ((fst (fst ?res), 1), snd ?res)"
    using s by (metis prod.collapse)
  have sc: "span_context (spans (snd ?res) (Suc 0)) = ''GET /foo/GET example.com''"
    using TraceRequest_span(3) [OF col]
    by (simp add: c SpanContextOf_def world2_simps text_tracer_simps)
  show ?thesis
    using TraceRequest_starts_span_and_injects [OF col]
    by (auto simp add: s c sc hr SpanContextOf_def world2_simps text_tracer_simps)
qed

text \<open>
  Claim C10. When the given context holds no span, \<^verbatim>\<open>TraceRequest\<close> returns all the same,
  and the span it returns was started with no reference: a root span.
\<close>

theorem TraceRequest_root_span_without_parent:
  assumes "SpanFromContext ctx = None"
  shows "\<exists>r' w'. TraceRequest tr operationName ctx r w = ((r', next_span w), w')
           \<and> operation_name (spans w' (next_span w)) = operationName
           \<and> references (spans w' (next_span w)) = []
           \<and> finish_calls (spans w' (next_span w)) = 0"
proof -
  obtain r' span w' where res: "TraceRequest tr operationName ctx r w = ((r', span), w')"
    by (metis prod.collapse)
  note facts = TraceRequest_span [OF res]
  have "span = next_span w"
    by (rule facts(1))
  moreover have "operation_name (spans w' span) = operationName
      \<and> references (spans w' span) = [] \<and> finish_calls (spans w' span) = 0"
    by (simp add: facts(3) assms)
  ultimately show ?thesis
    using res by blast
qed

theorem TraceRequest_root_span_without_parent_witness:
  "SpanFromContext background = None
   \<and> (\<exists>r' w'. TraceRequest text_tracer ''GET example.com'' background request0 world2
                 = ((r', 1), w')
         \<and> operation_name (spans w' 1) = ''GET example.com''
         \<and> references (spans w' 1) = []
         \<and> finish_calls (spans w' 1) = 0)"
proof -
  have b: "SpanFromContext background = None"
    by (simp add: background_def SpanFromContext_def)
  have n: "next_span world2 = 1"
    by (simp add: world2_def world0_def StartSpan_def Let_def)
  show ?thesis
    using b TraceRequest_root_span_without_parent
      [OF b, of text_tracer "''GET example.com''" request0 world2]
    by (simp add: n)
qed

text \<open>
  Claim C9. The error returned by \<^verbatim>\<open>Inject\<close> has no influence on \<^verbatim>\<open>TraceRequest\<close>: with any
  other error value in its place (\<open>e\<close>) the request, the span and the world that come back
  are the same. The request is returned whatever the error is, with the header map as
  \<^verbatim>\<open>Inject\<close> left it.
\<close>

theorem TraceRequest_discards_inject_error:
  assumes "TraceRequest tr operationName ctx r w = ((r', span), w')"
    and "Inject tr (SpanContextOf span w') HTTPHeaders (headers w (Header r)) = (h', err)"
  shows "TraceRequest (tr\<lparr>Inject := \<lambda>sc fmt h. (fst (Inject tr sc fmt h), e sc fmt h)\<rparr>)
           operationName ctx r w = ((r', span), w')
       \<and> r' = WithContext r (WithClientTrace (Context r) (TraceRequest_trace span))
       \<and> headers w' (Header r') = h'"
proof -
  note facts = TraceRequest_span [OF assms(1)]
  have same: "TraceRequest (tr\<lparr>Inject := \<lambda>sc fmt h. (fst (Inject tr sc fmt h), e sc fmt h)\<rparr>)
                operationName ctx r w = TraceRequest tr operationName ctx r w"
    by (simp add: TraceRequest_result StartSpanFromContext_world StartSpan_def InjectInto_def
        SpanContextOf_def Let_def split: prod.splits)
  have hdr: "Header r' = Header r"
    by (simp add: facts(2) WithContext_def)
  have "headers w' (Header r') = h'"
    using facts(5) assms(2) hdr by simp
  then show ?thesis
    using same assms(1) facts(2) by simp
qed

theorem TraceRequest_discards_inject_error_witness:
  "Inject rejecting_tracer
     (SpanContextOf 0
        (snd (TraceRequest rejecting_tracer ''GET example.com'' background request0 world0)))
     HTTPHeaders (headers world0 (Header request0)) = (Map.empty, Some ''invalid carrier'')
   \<and> headers (snd (TraceRequest rejecting_tracer ''GET example.com'' background request0 world0))
        (Header (fst (fst (TraceRequest rejecting_tracer ''GET example.com'' background request0
                             world0))))
       = Map.empty
   \<and> fst (fst (TraceRequest rejecting_tracer ''GET example.com'' background request0 world0))
       = WithContext request0 (WithClientTrace (Context request0) (TraceRequest_trace 0))"
proof -
  let ?res = "TraceRequest rejecting_tracer ''GET example.com'' background request0 world0"
  have s: "snd (fst ?res) = 0"
    using TraceRequest_span(1) [OF TraceRequest_collapse, of rejecting_tracer
        "''GET example.com''" background request0 world0]
    by (simp add: world0_def)
  have i: "Inject rejecting_tracer (SpanContextOf 0 (snd ?res)) HTTPHeaders
             (headers world0 (Header request0)) = (Map.empty, Some ''invalid carrier'')"
    by (simp add: rejecting_tracer_def world0_def)
  have c: "?res = ((fst (fst ?res), 0), snd ?res)"
    using s by (metis prod.collapse)
  show ?thesis
    using i TraceRequest_discards_inject_error [OF c i, where e = "\<lambda>sc fmt h. None"]
    by (elim conjE, intro conjI) simp_all
qed


text \<open>
  Claim C5, as the spec states it, fails for a tracer that injects nothing: extracting from
  the headers of the request returned does not give the context of the span returned.
\<close>

theorem TraceRequest_round_trip_counterexample:
  "fst (ExtractFrom noop_tracer HTTPHeaders
          (HTTPHeadersCarrier
             (Header (fst (fst (TraceRequest noop_tracer ''GET example.com'' background request0
                                  world0)))))
          (snd (TraceRequest noop_tracer ''GET example.com'' background request0 world0)))
   \<noteq> Some (SpanContextOf
              (snd (fst (TraceRequest noop_tracer ''GET example.com'' background request0 world0)))
              (snd (TraceRequest noop_tracer ''GET example.com'' background request0 world0)))"
  by (simp add: ExtractFrom_def noop_tracer_def)

text \<open>
  Claim C5, amended. When \<^verbatim>\<open>Inject\<close> reported no error for the request, and the tracer's
  \<^verbatim>\<open>Extract\<close> reads back what its \<^verbatim>\<open>Inject\<close> wrote in the HTTP headers format, extracting
  from the headers of the request returned gives the context of the span returned.
\<close>

theorem TraceRequest_round_trip:
  assumes "TraceRequest tr operationName ctx r w = ((r', span), w')"
    and "Inject tr (SpanContextOf span w') HTTPHeaders (headers w (Header r)) = (h', None)"
    and "\<forall>sc h h'. Inject tr sc HTTPHeaders h = (h', None)
           \<longrightarrow> Extract tr HTTPHeaders h' = (Some sc, None)"
  shows "ExtractFrom tr HTTPHeaders (HTTPHeadersCarrier (Header r')) w'
           = (Some (SpanContextOf span w'), None)"
proof -
  note facts = TraceRequest_span [OF assms(1)]
  have hdr: "Header r' = Header r"
    by (simp add: facts(2) WithContext_def)
  have "headers w' (Header r') = h'"
    using facts(5) assms(2) hdr by simp
  moreover have "Extract tr HTTPHeaders h' = (Some (SpanContextOf span w'), None)"
    using assms(2,3) by blast
  ultimately show ?thesis
    by (simp add: ExtractFrom_def HTTPHeadersCarrier_def)
qed

theorem TraceRequest_round_trip_witness:
  "Inject text_tracer
     (SpanContextOf 0
        (snd (TraceRequest text_tracer ''GET example.com'' background request0 world0)))
     HTTPHeaders (headers world0 (Header request0))
     = ([''Trace-Id'' \<mapsto> [''GET example.com'']], None)
   \<and> ExtractFrom text_tracer HTTPHeaders
        (HTTPHeadersCarrier
           (Header (fst (fst (TraceRequest text_tracer ''GET example.com'' background request0
                                world0)))))
        (snd (TraceRequest text_tracer ''GET example.com'' background request0 world0))
       = (Some ''GET example.com'', None)"
proof -
  let ?res = "TraceRequest text_tracer ''GET example.com'' background request0 world0"
  have b: "SpanFromContext background = None"
    by (simp add: background_def SpanFromContext_def)
  have s: "snd (fst ?res) = 0"
    using TraceRequest_span(1) [OF TraceRequest_collapse, of text_tracer
        "''GET example.com''" background request0 world0]
    by (simp add: world0_def)
  have col: "?res = ((fst (fst ?res), 0), snd ?res)"
    using s by (metis prod.collapse)
  have sc: "SpanContextOf 0 (snd ?res) = ''GET example.com''"
    using TraceRequest_span(3) [OF col]
    by (simp add: b SpanContextOf_def world0_def text_tracer_simps)
  have i: "Inject text_tracer (SpanContextOf 0 (snd ?res)) HTTPHeaders
             (headers world0 (Header request0))
           = ([''Trace-Id'' \<mapsto> [''GET example.com'']], None)"
    by (simp add: sc text_tracer_simps world0_simps)
  have law: "\<forall>sc h h'. Inject text_tracer sc HTTPHeaders h = (h', None)
               \<longrightarrow> Extract text_tracer HTTPHeaders h' = (Some sc, None)"
    by (auto simp add: text_tracer_simps)
  show ?thesis
    using i TraceRequest_round_trip [OF col i law]
    by (simp add: sc)
qed

text \<open>
  Claim C6. The request returned carries a client trace; an event fired on it runs the hook
  \<^verbatim>\<open>TraceRequest\<close> built for it (and then any hook the request's context held before).
  Each of the seven hooks appends exactly one entry to the log of the span when its event
  fires, the other events append none; over the events of a round trip the log grows by
  one entry for each event that has a hook, in the order the events fire, so an event that
  does not fire leaves no entry.
\<close>

theorem TraceRequest_hooks_log_once_per_event:
  assumes "TraceRequest tr operationName ctx r w = ((r', span), w')"
  shows "(\<exists>t. client_trace (Context r') = Some t
            \<and> (\<forall>ev v. fire t ev v =
                 (case client_trace (Context r) of
                    None \<Rightarrow> fire (TraceRequest_trace span) ev v
                  | Some old \<Rightarrow> fire old ev (fire (TraceRequest_trace span) ev v))))
       \<and> log_records (spans (fire (TraceRequest_trace span) ev v) span)
           = log_records (spans v span) @ logged ev
       \<and> length (logged ev) = (if hooked ev then 1 else 0)
       \<and> log_records (spans (fire_all (TraceRequest_trace span) evs v) span)
           = log_records (spans v span) @ concat (map logged evs)
       \<and> length (log_records (spans (fire_all (TraceRequest_trace span) evs v) span))
           = length (log_records (spans v span)) + length (filter hooked evs)"
proof -
  note facts = TraceRequest_span [OF assms]
  have attached: "\<exists>t. client_trace (Context r') = Some t
            \<and> (\<forall>ev v. fire t ev v =
                 (case client_trace (Context r) of
                    None \<Rightarrow> fire (TraceRequest_trace span) ev v
                  | Some old \<Rightarrow> fire old ev (fire (TraceRequest_trace span) ev v)))"
    by (simp add: facts(2) WithContext_def WithClientTrace_def fire_compose
        split: option.splits)
  have one: "log_records (spans (fire (TraceRequest_trace span) ev v) span)
               = log_records (spans v span) @ logged ev"
    by (simp add: fire_TraceRequest_trace log_entries_records)
  have many: "log_records (spans (fire_all (TraceRequest_trace span) evs v) span)
               = log_records (spans v span) @ concat (map logged evs)"
    by (simp add: fire_all_TraceRequest_trace log_entries_records)
  have count: "length (log_records (spans (fire_all (TraceRequest_trace span) evs v) span))
                 = length (log_records (spans v span)) + length (filter hooked evs)"
    by (simp add: many concat_logged_length)
  show ?thesis
    using attached one logged_length [of ev] many count
    by (intro conjI) assumption+
qed

theorem TraceRequest_hooks_log_once_per_event_witness:
  "log_records
     (spans
        (fire_all (TraceRequest_trace 0) ip_literal_round_trip
           (snd (TraceRequest text_tracer ''GET example.com'' background request0 world0)))
        0)
   = [[LogString ''event'' ''Get Connection '', LogString ''host:port'' ''10.0.0.1:80''],
      [LogString ''event'' ''Connect Done'', LogObject ''network'' (ObjString ''tcp''),
       LogString ''address'' ''10.0.0.1:80'', LogError None],
      [LogString ''event'' ''Got Connection'',
       LogObject ''connection info'' (ObjGotConnInfo (GotConnInfo False False 0))],
      [LogString ''event'' ''Wrote Request'',
       LogObject ''wrote request info'' (ObjWroteRequestInfo (WroteRequestInfo None))],
      [LogString ''event'' ''Got First Response Byte'']]
   \<and> client_trace
        (Context (fst (fst (TraceRequest text_tracer ''GET example.com'' background request0
                              world0))))
       \<noteq> None"
proof -
  let ?res = "TraceRequest text_tracer ''GET example.com'' background request0 world0"
  have b: "SpanFromContext background = None"
    by (simp add: background_def SpanFromContext_def)
  have s: "snd (fst ?res) = 0"
    using TraceRequest_span(1) [OF TraceRequest_collapse, of text_tracer
        "''GET example.com''" background request0 world0]
    by (simp add: world0_def)
  have col: "?res = ((fst (fst ?res), 0), snd ?res)"
    using s by (metis prod.collapse)
  have l: "log_records (spans (snd ?res) 0) = []"
    using TraceRequest_span(3) [OF col] by simp
  note inst = TraceRequest_hooks_log_once_per_event
      [OF col, where evs = ip_literal_round_trip and v = "snd ?res" and ev = EvGot100Continue]
  have m: "log_records (spans (fire_all (TraceRequest_trace 0) ip_literal_round_trip (snd ?res)) 0)
             = log_records (spans (snd ?res) 0) @ concat (map logged ip_literal_round_trip)"
    by (rule inst [THEN conjunct2, THEN conjunct2, THEN conjunct2, THEN conjunct1])
  have t: "\<exists>t. client_trace (Context (fst (fst ?res))) = Some t"
    using inst [THEN conjunct1] by blast
  have c: "concat (map logged ip_literal_round_trip)
     = [[LogString ''event'' ''Get Connection '', LogString ''host:port'' ''10.0.0.1:80''],
        [LogString ''event'' ''Connect Done'', LogObject ''network'' (ObjString ''tcp''),
         LogString ''address'' ''10.0.0.1:80'', LogError None],
        [LogString ''event'' ''Got Connection'',
         LogObject ''connection info'' (ObjGotConnInfo (GotConnInfo False False 0))],
        [LogString ''event'' ''Wrote Request'',
         LogObject ''wrote request info'' (ObjWroteRequestInfo (WroteRequestInfo None))],
        [LogString ''event'' ''Got First Response Byte'']]"
    by (simp add: ip_literal_round_trip_def)
  show ?thesis
    using t by (auto simp add: m l c)
qed

end
